theory Spec2Isabelle
  imports Complex_Main "HOL-Library.Multiset"
begin

section \<open>Best-fit plane alignment: the script's data\<close>

text \<open>
  The script \<^verbatim>\<open>best_fit_plane_metashape.py\<close> reads the vertices of the first mesh of a
  chunk, fits a plane through them and left-multiplies the chunk's transform by a
  translation and then by a rotation. NumPy's float64 arithmetic is modelled by exact
  arithmetic on \<^typ>\<open>real\<close>: rounding is outside the model, so every equation below is an
  equation of the exact computation that the script approximates.

  A 3-vector is \<^verbatim>\<open>Vec3 x y z\<close>; a 3x3 array and a 4x4 \<^verbatim>\<open>Metashape.Matrix\<close> list their
  entries row by row, so that \<^verbatim>\<open>A[i, j]\<close> is the entry in row \<open>i\<close>, column \<open>j\<close>.
\<close>

datatype vec3 = Vec3 (x_of: real) (y_of: real) (z_of: real)

datatype mat3 = Mat3 real real real  real real real  real real real

datatype mat4 = Mat4 real real real real  real real real real
                     real real real real  real real real real

datatype error = Exception string | DivisionByZero

record model =
  vertices :: "vec3 list"

record chunk =
  models :: "model list"
  transform_matrix :: mat4

subsection \<open>Vector operations of NumPy\<close>

fun vneg :: "vec3 \<Rightarrow> vec3" where
  "vneg (Vec3 a b c) = Vec3 (- a) (- b) (- c)"

fun vsub :: "vec3 \<Rightarrow> vec3 \<Rightarrow> vec3" where
  "vsub (Vec3 a b c) (Vec3 d e f) = Vec3 (a - d) (b - e) (c - f)"

fun vadd :: "vec3 \<Rightarrow> vec3 \<Rightarrow> vec3" where
  "vadd (Vec3 a b c) (Vec3 d e f) = Vec3 (a + d) (b + e) (c + f)"

fun vscale :: "real \<Rightarrow> vec3 \<Rightarrow> vec3" where
  "vscale k (Vec3 a b c) = Vec3 (k * a) (k * b) (k * c)"

text \<open>\<^verbatim>\<open>np.dot\<close>, \<^verbatim>\<open>np.cross\<close> and \<^verbatim>\<open>np.linalg.norm\<close> on 3-vectors.\<close>

fun dot :: "vec3 \<Rightarrow> vec3 \<Rightarrow> real" where
  "dot (Vec3 a b c) (Vec3 d e f) = a * d + b * e + c * f"

fun cross :: "vec3 \<Rightarrow> vec3 \<Rightarrow> vec3" where
  "cross (Vec3 a b c) (Vec3 d e f) = Vec3 (b * f - c * e) (c * d - a * f) (a * e - b * d)"

definition norm3 :: "vec3 \<Rightarrow> real" where
  "norm3 u = sqrt (dot u u)"

text \<open>\<^verbatim>\<open>np.mean(points, axis=0)\<close>: the mean of each column of an N x 3 array.\<close>

definition np_mean :: "vec3 list \<Rightarrow> vec3" where
  "np_mean ps =
     Vec3 (sum_list (map x_of ps) / real (length ps))
          (sum_list (map y_of ps) / real (length ps))
          (sum_list (map z_of ps) / real (length ps))"

text \<open>
  \<^verbatim>\<open>np.cov(X, rowvar=False)\<close>: the columns are the variables and the rows the
  observations. NumPy subtracts the column means once more and divides the sums of
  products by \<open>N - 1\<close>. The sums of the model are exact, so they do not depend on the
  order of the rows; in float64 two orderings of the same rows can give arrays that differ
  in their last bits. The statements about reordering below therefore do not assume that
  the eigensolver sees the same array twice: they let it answer the two orderings
  independently, each answer keeping the contract.
\<close>

definition np_cov :: "vec3 list \<Rightarrow> mat3" where
  "np_cov X =
     (let m = np_mean X;
          D = map (\<lambda>p. vsub p m) X;
          fact = real (length X) - 1;
          e = (\<lambda>g h. sum_list (map (\<lambda>d. g d * h d) D) / fact)
      in Mat3 (e x_of x_of) (e x_of y_of) (e x_of z_of)
              (e y_of x_of) (e y_of y_of) (e y_of z_of)
              (e z_of x_of) (e z_of y_of) (e z_of z_of))"

subsection \<open>3x3 arrays\<close>

definition eye3 :: mat3 where
  "eye3 = Mat3 1 0 0  0 1 0  0 0 1"

fun mat3_add :: "mat3 \<Rightarrow> mat3 \<Rightarrow> mat3" where
  "mat3_add (Mat3 a00 a01 a02 a10 a11 a12 a20 a21 a22)
            (Mat3 b00 b01 b02 b10 b11 b12 b20 b21 b22) =
     Mat3 (a00 + b00) (a01 + b01) (a02 + b02)
          (a10 + b10) (a11 + b11) (a12 + b12)
          (a20 + b20) (a21 + b21) (a22 + b22)"

text \<open>The operator \<^verbatim>\<open>@\<close> on two 3x3 arrays.\<close>

fun matmul :: "mat3 \<Rightarrow> mat3 \<Rightarrow> mat3" where
  "matmul (Mat3 a00 a01 a02 a10 a11 a12 a20 a21 a22)
          (Mat3 b00 b01 b02 b10 b11 b12 b20 b21 b22) =
     Mat3 (a00 * b00 + a01 * b10 + a02 * b20) (a00 * b01 + a01 * b11 + a02 * b21)
            (a00 * b02 + a01 * b12 + a02 * b22)
          (a10 * b00 + a11 * b10 + a12 * b20) (a10 * b01 + a11 * b11 + a12 * b21)
            (a10 * b02 + a11 * b12 + a12 * b22)
          (a20 * b00 + a21 * b10 + a22 * b20) (a20 * b01 + a21 * b11 + a22 * b21)
            (a20 * b02 + a21 * b12 + a22 * b22)"

text \<open>The operator \<^verbatim>\<open>*\<close> between a 3x3 array and a scalar.\<close>

fun mat3_scale :: "mat3 \<Rightarrow> real \<Rightarrow> mat3" where
  "mat3_scale (Mat3 a00 a01 a02 a10 a11 a12 a20 a21 a22) k =
     Mat3 (a00 * k) (a01 * k) (a02 * k)
          (a10 * k) (a11 * k) (a12 * k)
          (a20 * k) (a21 * k) (a22 * k)"

fun mat3_vec :: "mat3 \<Rightarrow> vec3 \<Rightarrow> vec3" where
  "mat3_vec (Mat3 a00 a01 a02 a10 a11 a12 a20 a21 a22) (Vec3 p q r) =
     Vec3 (a00 * p + a01 * q + a02 * r)
          (a10 * p + a11 * q + a12 * r)
          (a20 * p + a21 * q + a22 * r)"

fun transpose3 :: "mat3 \<Rightarrow> mat3" where
  "transpose3 (Mat3 a00 a01 a02 a10 a11 a12 a20 a21 a22) =
     Mat3 a00 a10 a20  a01 a11 a21  a02 a12 a22"

fun det3 :: "mat3 \<Rightarrow> real" where
  "det3 (Mat3 a00 a01 a02 a10 a11 a12 a20 a21 a22) =
     a00 * (a11 * a22 - a12 * a21) - a01 * (a10 * a22 - a12 * a20)
       + a02 * (a10 * a21 - a11 * a20)"

text \<open>The columns \<^verbatim>\<open>A[:, 0]\<close>, \<^verbatim>\<open>A[:, 1]\<close> and \<^verbatim>\<open>A[:, 2]\<close>.\<close>

fun column0 :: "mat3 \<Rightarrow> vec3" where
  "column0 (Mat3 a00 a01 a02 a10 a11 a12 a20 a21 a22) = Vec3 a00 a10 a20"

fun column1 :: "mat3 \<Rightarrow> vec3" where
  "column1 (Mat3 a00 a01 a02 a10 a11 a12 a20 a21 a22) = Vec3 a01 a11 a21"

fun column2 :: "mat3 \<Rightarrow> vec3" where
  "column2 (Mat3 a00 a01 a02 a10 a11 a12 a20 a21 a22) = Vec3 a02 a12 a22"

subsection \<open>The 4x4 matrices of the host\<close>

definition eye4 :: mat4 where
  "eye4 = Mat4 1 0 0 0  0 1 0 0  0 0 1 0  0 0 0 1"

text \<open>The operator \<^verbatim>\<open>*\<close> on two \<^verbatim>\<open>Metashape.Matrix\<close> values: the matrix product.\<close>

fun mat4_mul :: "mat4 \<Rightarrow> mat4 \<Rightarrow> mat4" where
  "mat4_mul (Mat4 a00 a01 a02 a03 a10 a11 a12 a13 a20 a21 a22 a23 a30 a31 a32 a33)
            (Mat4 b00 b01 b02 b03 b10 b11 b12 b13 b20 b21 b22 b23 b30 b31 b32 b33) =
     Mat4 (a00 * b00 + a01 * b10 + a02 * b20 + a03 * b30)
          (a00 * b01 + a01 * b11 + a02 * b21 + a03 * b31)
          (a00 * b02 + a01 * b12 + a02 * b22 + a03 * b32)
          (a00 * b03 + a01 * b13 + a02 * b23 + a03 * b33)
          (a10 * b00 + a11 * b10 + a12 * b20 + a13 * b30)
          (a10 * b01 + a11 * b11 + a12 * b21 + a13 * b31)
          (a10 * b02 + a11 * b12 + a12 * b22 + a13 * b32)
          (a10 * b03 + a11 * b13 + a12 * b23 + a13 * b33)
          (a20 * b00 + a21 * b10 + a22 * b20 + a23 * b30)
          (a20 * b01 + a21 * b11 + a22 * b21 + a23 * b31)
          (a20 * b02 + a21 * b12 + a22 * b22 + a23 * b32)
          (a20 * b03 + a21 * b13 + a22 * b23 + a23 * b33)
          (a30 * b00 + a31 * b10 + a32 * b20 + a33 * b30)
          (a30 * b01 + a31 * b11 + a32 * b21 + a33 * b31)
          (a30 * b02 + a31 * b12 + a32 * b22 + a33 * b32)
          (a30 * b03 + a31 * b13 + a32 * b23 + a33 * b33)"

text \<open>\<^verbatim>\<open>Metashape.Matrix().Translation(vector)\<close>: the translation by a 3-vector.\<close>

fun Translation :: "vec3 \<Rightarrow> mat4" where
  "Translation (Vec3 a b c) = Mat4 1 0 0 a  0 1 0 b  0 0 1 c  0 0 0 1"

text \<open>
  \<^verbatim>\<open>Matrix.mulp(point)\<close> transforms a point in homogeneous coordinates: the point is
  extended by a fourth coordinate 1, multiplied by the matrix and divided by the fourth
  coordinate of the product. On a matrix whose last row is \<open>0 0 0 1\<close>, as every matrix
  that the script builds, that coordinate is 1 and \<open>mulp\<close> is the affine map; the
  properties below apply \<open>mulp\<close> to such matrices only, and take the world-space
  points \<open>mulp matrix coord\<close> of the incoming chunk as they are.
\<close>

fun mulp :: "mat4 \<Rightarrow> vec3 \<Rightarrow> vec3" where
  "mulp (Mat4 a00 a01 a02 a03 a10 a11 a12 a13 a20 a21 a22 a23 a30 a31 a32 a33) (Vec3 p q r) =
     (let w = a30 * p + a31 * q + a32 * r + a33
      in Vec3 ((a00 * p + a01 * q + a02 * r + a03) / w)
              ((a10 * p + a11 * q + a12 * r + a13) / w)
              ((a20 * p + a21 * q + a22 * r + a23) / w))"

section \<open>The script, stage by stage\<close>

subsection \<open>Step 1: centring\<close>

definition centroid :: "vec3 list \<Rightarrow> vec3" where
  "centroid points = np_mean points"

definition T :: "vec3 list \<Rightarrow> mat4" where
  "T points = Translation (vneg (centroid points))"

subsection \<open>Step 2: the normal of the best-fit plane\<close>

definition centered_points :: "vec3 list \<Rightarrow> vec3 list" where
  "centered_points points = map (\<lambda>p. vsub p (centroid points)) points"

definition cov :: "vec3 list \<Rightarrow> mat3" where
  "cov points = np_cov (centered_points points)"

text \<open>
  \<^verbatim>\<open>np.linalg.eigh\<close> is a parameter \<open>eigh\<close> of the model: it maps a 3x3 array to the
  pair of the eigenvalues and of the array whose columns are the eigenvectors. The
  script takes column 0 and negates it when its third component is negative.
\<close>

type_synonym eigensolver = "mat3 \<Rightarrow> vec3 \<times> mat3"

definition normal_vector :: "eigensolver \<Rightarrow> vec3 list \<Rightarrow> vec3" where
  "normal_vector eigh points =
     (let (eigenvalues, eigenvectors) = eigh (cov points);
          normal = column0 eigenvectors
      in if z_of normal < 0 then vneg normal else normal)"

subsection \<open>Step 3: Rodrigues' rotation\<close>

definition target_vector :: vec3 where
  "target_vector = Vec3 0 0 1"

fun vx_matrix :: "vec3 \<Rightarrow> mat3" where
  "vx_matrix (Vec3 v0 v1 v2) = Mat3 0 (- v2) v1  v2 0 (- v0)  (- v1) v0 0"

text \<open>
  NumPy answers a float division by zero with a warning and a non-finite value; the
  model makes that event the error value \<open>DivisionByZero\<close>, so that a theorem can say
  whether it happens.
\<close>

definition checked_divide :: "real \<Rightarrow> real \<Rightarrow> error + real" where
  "checked_divide a b = (if b = 0 then Inl DivisionByZero else Inr (a / b))"

definition R :: "vec3 \<Rightarrow> error + mat3" where
  "R normal =
     (let v = cross normal target_vector;
          s = norm3 v
      in if s = 0 then Inr eye3
         else
           (let c = dot normal target_vector;
                vx = vx_matrix v
            in case checked_divide (1 - c) (s\<^sup>2) of
                 Inl e \<Rightarrow> Inl e
               | Inr k \<Rightarrow> Inr (mat3_add (mat3_add eye3 vx) (mat3_scale (matmul vx vx) k))))"

fun R_matrix :: "mat3 \<Rightarrow> mat4" where
  "R_matrix (Mat3 r00 r01 r02 r10 r11 r12 r20 r21 r22) =
     Mat4 r00 r01 r02 0  r10 r11 r12 0  r20 r21 r22 0  0 0 0 1"

subsection \<open>The whole script\<close>

text \<open>
  The script returns the chunk as it leaves it, with the exception it raised, if any.
  Only \<^verbatim>\<open>chunk.transform.matrix\<close> is written: first \<^verbatim>\<open>T * matrix\<close>, then
  \<^verbatim>\<open>R_matrix * matrix\<close>. A chunk without the attribute \<^verbatim>\<open>models\<close> is a chunk with
  no model. The console output, the installation of NumPy and \<^verbatim>\<open>chunk.resetRegion()\<close>
  do not touch the matrix and are left out.
\<close>

definition script :: "eigensolver \<Rightarrow> chunk \<Rightarrow> error option \<times> chunk" where
  "script eigh chunk =
     (case models chunk of
        [] \<Rightarrow> (Some (Exception ''No mesh found in the chunk.''), chunk)
      | model # _ \<Rightarrow>
          if length (vertices model) < 3
          then (Some (Exception ''Not enough vertices to compute a plane.''), chunk)
          else
            (let points = map (mulp (transform_matrix chunk)) (vertices model);
                 chunk1 = chunk\<lparr>transform_matrix :=
                            mat4_mul (T points) (transform_matrix chunk)\<rparr>
             in case R (normal_vector eigh points) of
                  Inl e \<Rightarrow> (Some e, chunk1)
                | Inr r \<Rightarrow>
                    (None, chunk1\<lparr>transform_matrix :=
                             mat4_mul (R_matrix r) (transform_matrix chunk1)\<rparr>)))"

text \<open>
  The transform that the script multiplies onto the chunk's matrix from the left: the
  rotation after the translation.
\<close>

definition alignment :: "eigensolver \<Rightarrow> vec3 list \<Rightarrow> error + mat4" where
  "alignment eigh points =
     (if length points < 3 then Inl (Exception ''Not enough vertices to compute a plane.'')
      else case R (normal_vector eigh points) of
             Inl e \<Rightarrow> Inl e
           | Inr r \<Rightarrow> Inr (mat4_mul (R_matrix r) (T points)))"

subsection \<open>The contract of the eigensolver\<close>

text \<open>
  What NumPy documents for \<^verbatim>\<open>np.linalg.eigh\<close> on a real symmetric array: the
  eigenvalues come in ascending order, column \<open>i\<close> of the second result is a normalised
  eigenvector for eigenvalue \<open>i\<close>, and the columns are orthonormal. The eigenvalues
  \<^verbatim>\<open>w[0]\<close>, \<^verbatim>\<open>w[1]\<close>, \<^verbatim>\<open>w[2]\<close> are the three components of the first result.
  \<open>eigh_contract eigh A\<close> says that \<open>eigh\<close> keeps this contract at the array \<open>A\<close>.
\<close>

definition eigh_contract :: "eigensolver \<Rightarrow> mat3 \<Rightarrow> bool" where
  "eigh_contract eigh A =
     (let (w, V) = eigh A
      in x_of w \<le> y_of w \<and> y_of w \<le> z_of w \<and>
         matmul (transpose3 V) V = eye3 \<and>
         mat3_vec A (column0 V) = vscale (x_of w) (column0 V) \<and>
         mat3_vec A (column1 V) = vscale (y_of w) (column1 V) \<and>
         mat3_vec A (column2 V) = vscale (z_of w) (column2 V))"

text \<open>The smallest eigenvalue is simple: the fitted plane is not ambiguous.\<close>

definition nondegenerate :: "eigensolver \<Rightarrow> mat3 \<Rightarrow> bool" where
  "nondegenerate eigh A = (let (w, V) = eigh A in x_of w < y_of w)"

subsection \<open>Auxiliary notions for the proofs\<close>

text \<open>
  The closed form of Rodrigues' matrix for a unit normal \<open>(a, b, c)\<close> and the target
  \<open>(0, 0, 1)\<close>, where \<open>(1 - c) / s\<^sup>2 = 1 / (1 + c)\<close>.
\<close>

definition rod :: "real \<Rightarrow> real \<Rightarrow> real \<Rightarrow> mat3" where
  "rod a b c = Mat3 (1 - a * a / (1 + c)) (- (a * b) / (1 + c)) (- a)
                    (- (a * b) / (1 + c)) (1 - b * b / (1 + c)) (- b)
                    a b c"

text \<open>The upper-left 3x3 block of a 4x4 matrix.\<close>

fun rotation_block :: "mat4 \<Rightarrow> mat3" where
  "rotation_block (Mat4 a00 a01 a02 a03 a10 a11 a12 a13 a20 a21 a22 a23 a30 a31 a32 a33) =
     Mat3 a00 a01 a02  a10 a11 a12  a20 a21 a22"

text \<open>
  The sum of \<open>(d \<sqdot> y) d\<close> over a list of vectors \<open>d\<close>: the scatter matrix of the list,
  applied to \<open>y\<close>.
\<close>

fun scatter_apply :: "vec3 list \<Rightarrow> vec3 \<Rightarrow> vec3" where
  "scatter_apply [] y = Vec3 0 0 0"
| "scatter_apply (d # D) y = vadd (vscale (dot d y) d) (scatter_apply D y)"

subsection \<open>Example inputs\<close>

text \<open>
  Four points of the plane \<open>x = 3\<close>, four corners of a unit square in the plane
  \<open>z = 5\<close>, and an eigensolver that answers correctly on the covariance arrays of
  both (for the square it returns the downward normal \<open>(0, 0, -1)\<close> in column 0).
\<close>

definition wall_points :: "vec3 list" where
  "wall_points = [Vec3 3 0 0, Vec3 3 1 0, Vec3 3 0 1, Vec3 3 1 1]"

definition square_points :: "vec3 list" where
  "square_points = [Vec3 0 0 5, Vec3 1 0 5, Vec3 1 1 5, Vec3 0 1 5]"

definition example_eigh :: eigensolver where
  "example_eigh A =
     (if A = Mat3 0 0 0  0 (1/3) 0  0 0 (1/3)
      then (Vec3 0 (1/3) (1/3), Mat3 1 0 0  0 1 0  0 0 1)
      else (Vec3 0 (1/3) (1/3), Mat3 0 1 0  0 0 1  (- 1) 0 0))"

definition example_chunk :: "vec3 list \<Rightarrow> chunk" where
  "example_chunk vs = \<lparr>models = [\<lparr>vertices = vs\<rparr>], transform_matrix = eye4\<rparr>"







section \<open>Properties\<close>

lemma R_defined: "\<exists>r. R n = Inr r"
  by (simp add: R_def Let_def checked_divide_def)

subsection \<open>Sums, means and the affine action\<close>

lemma x_of_mat3_vec:
  "x_of (mat3_vec (Mat3 a00 a01 a02 a10 a11 a12 a20 a21 a22) p) = a00 * x_of p + a01 * y_of p + a02 * z_of p"
  "y_of (mat3_vec (Mat3 a00 a01 a02 a10 a11 a12 a20 a21 a22) p) = a10 * x_of p + a11 * y_of p + a12 * z_of p"
  "z_of (mat3_vec (Mat3 a00 a01 a02 a10 a11 a12 a20 a21 a22) p) = a20 * x_of p + a21 * y_of p + a22 * z_of p"
  by (cases p; simp)+

lemma sel_vsub:
  "x_of (vsub p m) = x_of p - x_of m" "y_of (vsub p m) = y_of p - y_of m" "z_of (vsub p m) = z_of p - z_of m"
  by (cases p; cases m; simp)+

lemma sum_list_lin3:
  fixes f g h :: "'a \<Rightarrow> real"
  shows "sum_list (map (\<lambda>p. a * f p + b * g p + c * h p) ps)
       = a * sum_list (map f ps) + b * sum_list (map g ps) + c * sum_list (map h ps)"
  by (induction ps) (simp_all add: algebra_simps)

lemma sum_list_shift:
  fixes f :: "'a \<Rightarrow> real"
  shows "sum_list (map (\<lambda>p. f p - k) ps) = sum_list (map f ps) - real (length ps) * k"
  by (induction ps) (simp_all add: algebra_simps)

lemma sum_centered:
  assumes "ps \<noteq> []"
  shows "sum_list (map (\<lambda>p. x_of (vsub p (np_mean ps))) ps) = 0"
        "sum_list (map (\<lambda>p. y_of (vsub p (np_mean ps))) ps) = 0"
        "sum_list (map (\<lambda>p. z_of (vsub p (np_mean ps))) ps) = 0"
  using assms by (simp_all add: sel_vsub sum_list_shift np_mean_def)

lemma mulp_Translation: "mulp (Translation t) p = vadd p t"
  by (cases t; cases p; simp)

lemma mulp_R_matrix: "mulp (R_matrix r) p = mat3_vec r p"
  by (cases r; cases p; simp)

lemma mulp_R_T: "mulp (mat4_mul (R_matrix r) (Translation t)) p = mat3_vec r (vadd p t)"
  by (cases r; cases t; cases p; simp add: algebra_simps)

lemma vadd_vneg: "vadd p (vneg c) = vsub p c"
  by (cases p; cases c; simp)

lemma mat4_mul_assoc: "mat4_mul (mat4_mul A B) C = mat4_mul A (mat4_mul B C)"
  by (cases A; cases B; cases C; simp add: algebra_simps)

lemma np_mean_rot_centered:
  assumes "ps \<noteq> []"
  shows "np_mean (map (\<lambda>p. mat3_vec r (vsub p (np_mean ps))) ps) = Vec3 0 0 0"
proof (cases r)
  case (Mat3 a00 a01 a02 a10 a11 a12 a20 a21 a22)
  show ?thesis
    unfolding Mat3 np_mean_def[of "map _ _"]
    by (simp add: o_def x_of_mat3_vec sum_list_lin3 sum_centered[OF assms])
qed

subsection \<open>Rodrigues' matrix in closed form\<close>

lemma norm3_eq_0: "norm3 u = 0 \<longleftrightarrow> u = Vec3 0 0 0"
  by (cases u) (auto simp add: norm3_def power2_eq_square[symmetric] sum_power2_eq_zero_iff add_nonneg_eq_0_iff)

lemma norm3_sq: "(norm3 u)\<^sup>2 = dot u u"
  by (cases u) (simp add: norm3_def power2_eq_square[symmetric])

lemma R_aligned: "norm3 (cross n target_vector) = 0 \<Longrightarrow> R n = Inr eye3"
  by (simp add: R_def)

lemma R_rodrigues:
  assumes "norm3 (cross n target_vector) \<noteq> 0"
  shows "R n = Inr (mat3_add (mat3_add eye3 (vx_matrix (cross n target_vector)))
            (mat3_scale (matmul (vx_matrix (cross n target_vector)) (vx_matrix (cross n target_vector)))
               ((1 - dot n target_vector) / (norm3 (cross n target_vector))\<^sup>2)))"
  using assms by (simp add: R_def Let_def checked_divide_def)

lemma key:
  fixes q c :: real
  assumes u: "q + c * c = 1" and s: "q \<noteq> 0"
  shows "1 + c \<noteq> 0" "(1 - c) / q = 1 / (1 + c)"
proof -
  have e: "q = (1 - c) * (1 + c)" using u by (simp add: algebra_simps)
  show c1: "1 + c \<noteq> 0" using s e by auto
  have "(1 - c) * (1 + c) = 1 * q" using e by simp
  then show "(1 - c) / q = 1 / (1 + c)" using s c1
    by (simp add: frac_eq_eq)
qed

lemma sq_sum_zero: "(a::real) * a + b * b = 0 \<longleftrightarrow> a = 0 \<and> b = 0"
  by (simp add: power2_eq_square[symmetric] sum_power2_eq_zero_iff)

lemma cross_target: "cross (Vec3 a b c) target_vector = Vec3 b (- a) 0"
  by (simp add: target_vector_def)

lemma dot_target: "dot (Vec3 a b c) target_vector = c"
  by (simp add: target_vector_def)

lemma s_zero_iff: "norm3 (cross (Vec3 a b c) target_vector) = 0 \<longleftrightarrow> a * a + b * b = 0"
  unfolding norm3_eq_0 cross_target sq_sum_zero by auto

lemma s_sq: "(norm3 (cross (Vec3 a b c) target_vector))\<^sup>2 = a * a + b * b"
  unfolding norm3_sq cross_target by simp

lemma R_unit_explicit:
  assumes u: "a * a + b * b + c * c = 1" and s: "a * a + b * b \<noteq> 0"
  shows "R (Vec3 a b c) = Inr (rod a b c)"
proof -
  define q where "q = a * a + b * b"
  have nz: "norm3 (cross (Vec3 a b c) target_vector) \<noteq> 0"
    using s by (simp only: s_zero_iff not_False_eq_True)
  have u': "q + c * c = 1" and s': "q \<noteq> 0" using u s by (simp_all add: q_def)
  have k: "(1 - c) / q = 1 / (1 + c)" and c1: "1 + c \<noteq> 0" using key[OF u' s'] by simp_all
  have z: "1 + (- (a * a) - b * b) / (1 + c) = c" using c1 u by (simp add: field_simps)
  have "R (Vec3 a b c) = Inr (mat3_add (mat3_add eye3 (vx_matrix (Vec3 b (- a) 0)))
            (mat3_scale (matmul (vx_matrix (Vec3 b (- a) 0)) (vx_matrix (Vec3 b (- a) 0)))
               ((1 - c) / q)))"
    unfolding R_rodrigues[OF nz] s_sq unfolding cross_target dot_target q_def ..
  also have "\<dots> = Inr (rod a b c)"
    unfolding k using z by (simp add: eye3_def rod_def q_def)
  finally show ?thesis .
qed

lemma rod_maps:
  assumes u: "a * a + b * b + c * c = 1" and c1: "1 + c \<noteq> 0"
  shows "mat3_vec (rod a b c) (Vec3 a b c) = Vec3 0 0 1"
proof -
  obtain k where k: "k * (1 + c) = 1" using c1 by (metis nonzero_divide_eq_eq)
  have kd: "\<And>x. x / (1 + c) = x * k" using k c1 by (simp add: field_simps)
  show ?thesis unfolding rod_def kd
    apply simp
    using k u by algebra
qed

lemma rod_orth:
  assumes u: "a * a + b * b + c * c = 1" and c1: "1 + c \<noteq> 0"
  shows "matmul (transpose3 (rod a b c)) (rod a b c) = eye3"
proof -
  obtain k where k: "k * (1 + c) = 1" using c1 by (metis nonzero_divide_eq_eq)
  have kd: "\<And>x. x / (1 + c) = x * k" using k c1 by (simp add: field_simps)
  have e: "a * a + b * b = (1 - c) * (1 + c)" using u by (simp add: algebra_simps)
  show ?thesis unfolding rod_def eye3_def kd
    apply simp
    using k u by algebra
qed

lemma rod_det:
  assumes u: "a * a + b * b + c * c = 1" and c1: "1 + c \<noteq> 0"
  shows "det3 (rod a b c) = 1"
proof -
  obtain k where k: "k * (1 + c) = 1" using c1 by (metis nonzero_divide_eq_eq)
  have kd: "\<And>x. x / (1 + c) = x * k" using k c1 by (simp add: field_simps)
  show ?thesis unfolding rod_def kd
    apply simp
    using k u by algebra
qed

subsection \<open>Determinants and orthonormal columns\<close>

lemma det3_matmul: "det3 (matmul A B) = det3 A * det3 B"
  by (cases A; cases B) (simp add: algebra_simps)

lemma det3_transpose3: "det3 (transpose3 A) = det3 A"
  by (cases A) (simp add: algebra_simps)

lemma det3_eye3: "det3 eye3 = 1"
  by (simp add: eye3_def)

lemma orth_det_nz: "matmul (transpose3 V) V = eye3 \<Longrightarrow> det3 V \<noteq> 0"
proof
  assume a: "matmul (transpose3 V) V = eye3" and z: "det3 V = 0"
  have "det3 (matmul (transpose3 V) V) = 1" unfolding a by (rule det3_eye3)
  then show False unfolding det3_matmul det3_transpose3 z by simp
qed

lemma cramer_zero:
  assumes "mat3_vec M x = Vec3 0 0 0" and "det3 M \<noteq> 0"
  shows "x = Vec3 0 0 0"
proof (cases M)
  case (Mat3 a00 a01 a02 a10 a11 a12 a20 a21 a22)
  obtain p q r where x: "x = Vec3 p q r" by (cases x)
  from assms(1) have e: "a00 * p + a01 * q + a02 * r = 0" "a10 * p + a11 * q + a12 * r = 0"
     "a20 * p + a21 * q + a22 * r = 0" unfolding Mat3 x by simp_all
  have "det3 M * p = 0" unfolding Mat3 using e by simp algebra
  moreover have "det3 M * q = 0" unfolding Mat3 using e by simp algebra
  moreover have "det3 M * r = 0" unfolding Mat3 using e by simp algebra
  ultimately show ?thesis using assms(2) x by simp
qed

lemma transpose3_vec:
  "mat3_vec (transpose3 V) x = Vec3 (dot (column0 V) x) (dot (column1 V) x) (dot (column2 V) x)"
  by (cases V; cases x) simp

lemma transpose3_transpose3: "transpose3 (transpose3 V) = V"
  by (cases V) simp

lemma dot_commute: "dot u v = dot v u"
  by (cases u; cases v) simp

lemma dot_mat3_vec: "dot (mat3_vec A x) y = dot x (mat3_vec (transpose3 A) y)"
  by (cases A; cases x; cases y) (simp add: algebra_simps)

lemma mat3_vec_matmul: "mat3_vec (matmul A B) x = mat3_vec A (mat3_vec B x)"
  by (cases A; cases B; cases x) (simp add: algebra_simps)

lemma mat3_vec_eye3: "mat3_vec eye3 x = x"
  by (cases x) (simp add: eye3_def)

lemma dot_vscale_right: "dot u (vscale k v) = k * dot u v"
  by (cases u; cases v) (simp add: algebra_simps)


lemma mat3_vec_vscale: "mat3_vec A (vscale k x) = vscale k (mat3_vec A x)"
  by (cases A; cases x) (simp add: algebra_simps)

lemma mat3_vec_vneg: "mat3_vec A (vneg x) = vneg (mat3_vec A x)"
  by (cases A; cases x) (simp add: algebra_simps)

lemma orth_columns_span:
  assumes o: "matmul (transpose3 V) V = eye3"
    and "dot (column0 V) x = 0" "dot (column1 V) x = 0" "dot (column2 V) x = 0"
  shows "x = Vec3 0 0 0"
proof -
  have "mat3_vec (transpose3 V) x = Vec3 0 0 0" using assms(2-4) by (simp add: transpose3_vec)
  moreover have "det3 (transpose3 V) \<noteq> 0" using orth_det_nz[OF o] by (simp add: det3_transpose3)
  ultimately show ?thesis by (rule cramer_zero)
qed

subsection \<open>The script as a whole\<close>

lemma mulp_eye4: "mulp eye4 p = p"
  by (cases p) (simp add: eye4_def)

lemma script_runs:
  assumes "models ch = m # ms" and "3 \<le> length (vertices m)"
    and "points = map (mulp (transform_matrix ch)) (vertices m)"
    and "R (normal_vector eigh points) = Inr r"
  shows "script eigh ch =
           (None, ch\<lparr>transform_matrix :=
                     mat4_mul (R_matrix r) (mat4_mul (T points) (transform_matrix ch))\<rparr>)"
  using assms by (simp add: script_def Let_def)

lemma mulp_T: "mulp (T points) p = vsub p (centroid points)"
  by (simp add: T_def mulp_Translation vadd_vneg)

lemma mulp_alignment: "mulp (mat4_mul (R_matrix r) (T points)) p = mat3_vec r (vsub p (centroid points))"
  by (simp add: T_def mulp_R_T vadd_vneg)

lemma no_mesh_raises:
  assumes "models ch = []"
  shows "script eigh ch = (Some (Exception ''No mesh found in the chunk.''), ch)"
  using assms by (simp add: script_def)

text \<open>
  Claim C5. When the first mesh has fewer than three vertices the script raises its
  exception \<^verbatim>\<open>Not enough vertices to compute a plane.\<close> (the specification's
  InsufficientDataError) at once: the chunk is returned as it was, so no transform has
  been computed or applied.
\<close>

theorem too_few_vertices_raise:
  assumes "models ch = m # ms" and "length (vertices m) < 3"
  shows "script eigh ch = (Some (Exception ''Not enough vertices to compute a plane.''), ch)"
  using assms by (simp add: script_def)

theorem too_few_vertices_raise_witness:
  "script example_eigh (example_chunk [Vec3 0 0 0, Vec3 1 0 0]) =
     (Some (Exception ''Not enough vertices to compute a plane.''),
      example_chunk [Vec3 0 0 0, Vec3 1 0 0])"
  using too_few_vertices_raise [of "example_chunk [Vec3 0 0 0, Vec3 1 0 0]"
      "\<lparr>vertices = [Vec3 0 0 0, Vec3 1 0 0]\<rparr>" "[]" example_eigh]
  by (simp add: example_chunk_def)

text \<open>
  Claim C7. For three or more points the centroid is the component-wise arithmetic mean
  (N times the centroid is the sum of the points), the matrix \<open>T\<close> maps every point
  \<open>p\<close> to \<open>p - centroid\<close>, and the script raises nothing: it ends with the rotation
  multiplied onto \<open>T * matrix\<close>.
\<close>

theorem centering_stage:
  assumes "models ch = m # ms" and "3 \<le> length (vertices m)"
    and "points = map (mulp (transform_matrix ch)) (vertices m)"
  shows "vscale (real (length points)) (centroid points) =
           Vec3 (sum_list (map x_of points)) (sum_list (map y_of points)) (sum_list (map z_of points))
         \<and> (\<forall>p. mulp (T points) p = vsub p (centroid points))
         \<and> (\<exists>r. script eigh ch =
               (None, ch\<lparr>transform_matrix :=
                         mat4_mul (R_matrix r) (mat4_mul (T points) (transform_matrix ch))\<rparr>))"
proof -
  have n: "real (length points) \<noteq> 0" using assms(2,3) by auto
  have "vscale (real (length points)) (centroid points) =
           Vec3 (sum_list (map x_of points)) (sum_list (map y_of points)) (sum_list (map z_of points))"
    using n by (simp add: centroid_def np_mean_def)
  moreover obtain r where "R (normal_vector eigh points) = Inr r" using R_defined by blast
  ultimately show ?thesis using script_runs[OF assms] mulp_T by blast
qed

theorem centering_stage_witness:
  "vscale 4 (centroid wall_points) = Vec3 12 2 2
   \<and> (\<forall>p. mulp (T wall_points) p = vsub p (Vec3 3 (1/2) (1/2)))
   \<and> fst (script example_eigh (example_chunk wall_points)) = None"
proof -
  have c: "centroid wall_points = Vec3 3 (1/2) (1/2)"
    by (simp add: centroid_def np_mean_def wall_points_def)
  have h1: "models (example_chunk wall_points) = \<lparr>vertices = wall_points\<rparr> # []"
    by (simp add: example_chunk_def)
  have h2: "3 \<le> length (vertices \<lparr>vertices = wall_points\<rparr>)"
    by (simp add: wall_points_def)
  have h3: "wall_points = map (mulp (transform_matrix (example_chunk wall_points)))
                (vertices \<lparr>vertices = wall_points\<rparr>)"
    by (simp add: example_chunk_def mulp_eye4 [abs_def])
  from centering_stage [OF h1 h2 h3, of example_eigh] show ?thesis
    unfolding c by (auto simp add: wall_points_def)
qed

text \<open>
  Claim C1. The transform that the script multiplies onto the chunk's matrix is
  \<open>R_matrix * T\<close>: on a point it acts as the translation first and the rotation
  second, and the mean of the transformed input points is the zero vector.
\<close>

theorem alignment_rotation_after_translation:
  assumes "models ch = m # ms" and "3 \<le> length (vertices m)"
    and "points = map (mulp (transform_matrix ch)) (vertices m)"
  shows "\<exists>r A. R (normal_vector eigh points) = Inr r
           \<and> A = mat4_mul (R_matrix r) (T points)
           \<and> alignment eigh points = Inr A
           \<and> script eigh ch = (None, ch\<lparr>transform_matrix := mat4_mul A (transform_matrix ch)\<rparr>)
           \<and> (\<forall>p. mulp A p = mulp (R_matrix r) (mulp (T points) p))
           \<and> np_mean (map (mulp A) points) = Vec3 0 0 0"
proof -
  obtain r where r: "R (normal_vector eigh points) = Inr r" using R_defined by blast
  have len: "3 \<le> length points" and ne: "points \<noteq> []" using assms(2,3) by auto
  have a: "alignment eigh points = Inr (mat4_mul (R_matrix r) (T points))"
    using len r by (simp add: alignment_def)
  have s: "script eigh ch = (None, ch\<lparr>transform_matrix :=
             mat4_mul (mat4_mul (R_matrix r) (T points)) (transform_matrix ch)\<rparr>)"
    using script_runs[OF assms r] by (simp add: mat4_mul_assoc)
  have p: "\<forall>p. mulp (mat4_mul (R_matrix r) (T points)) p = mulp (R_matrix r) (mulp (T points) p)"
    by (simp add: mulp_alignment mulp_T mulp_R_matrix)
  have z: "np_mean (map (mulp (mat4_mul (R_matrix r) (T points))) points) = Vec3 0 0 0"
    using np_mean_rot_centered[OF ne, of r]
    by (simp add: mulp_alignment [abs_def] centroid_def)
  from r a s p z show ?thesis by blast
qed

theorem alignment_rotation_after_translation_witness:
  "\<exists>r A. R (normal_vector example_eigh wall_points) = Inr r
       \<and> A = mat4_mul (R_matrix r) (T wall_points)
       \<and> alignment example_eigh wall_points = Inr A
       \<and> script example_eigh (example_chunk wall_points) =
           (None, (example_chunk wall_points)\<lparr>transform_matrix := mat4_mul A eye4\<rparr>)
       \<and> (\<forall>p. mulp A p = mulp (R_matrix r) (mulp (T wall_points) p))
       \<and> np_mean (map (mulp A) wall_points) = Vec3 0 0 0"
proof -
  have h1: "models (example_chunk wall_points) = \<lparr>vertices = wall_points\<rparr> # []"
    by (simp add: example_chunk_def)
  have h2: "3 \<le> length (vertices \<lparr>vertices = wall_points\<rparr>)"
    by (simp add: wall_points_def)
  have h3: "wall_points = map (mulp (transform_matrix (example_chunk wall_points)))
                (vertices \<lparr>vertices = wall_points\<rparr>)"
    by (simp add: example_chunk_def mulp_eye4 [abs_def])
  have e: "transform_matrix (example_chunk wall_points) = eye4" by (simp add: example_chunk_def)
  from alignment_rotation_after_translation [OF h1 h2 h3, of example_eigh] show ?thesis
    unfolding e .
qed

subsection \<open>The fitted normal\<close>

lemma gram_columns:
  "matmul (transpose3 V) V =
     Mat3 (dot (column0 V) (column0 V)) (dot (column0 V) (column1 V)) (dot (column0 V) (column2 V))
          (dot (column1 V) (column0 V)) (dot (column1 V) (column1 V)) (dot (column1 V) (column2 V))
          (dot (column2 V) (column0 V)) (dot (column2 V) (column1 V)) (dot (column2 V) (column2 V))"
  by (cases V) simp

lemma orth_columns:
  assumes "matmul (transpose3 V) V = eye3"
  shows "dot (column0 V) (column0 V) = 1" "dot (column1 V) (column1 V) = 1"
    "dot (column2 V) (column2 V) = 1" "dot (column0 V) (column1 V) = 0"
    "dot (column0 V) (column2 V) = 0" "dot (column1 V) (column2 V) = 0"
  using assms unfolding gram_columns eye3_def by simp_all

lemma dot_vneg_vneg: "dot (vneg u) (vneg u) = dot u u"
  by (cases u) simp

lemma vscale_vneg: "vscale k (vneg u) = vneg (vscale k u)"
  by (cases u) simp

lemma z_of_vneg: "z_of (vneg u) = - z_of u"
  by (cases u) simp

lemma normal_vector_cases:
  assumes "eigh (cov points) = (w, V)"
  shows "normal_vector eigh points = (if z_of (column0 V) < 0 then vneg (column0 V) else column0 V)"
  using assms by (simp add: normal_vector_def)

lemma normal_vector_upward: "0 \<le> z_of (normal_vector eigh points)"
proof -
  obtain w V where e: "eigh (cov points) = (w, V)" by (cases "eigh (cov points)")
  show ?thesis unfolding normal_vector_cases[of eigh points, OF e] by (simp add: z_of_vneg)
qed

lemma normal_vector_unit:
  assumes "eigh_contract eigh (cov points)"
  shows "dot (normal_vector eigh points) (normal_vector eigh points) = 1"
proof -
  obtain w V where e: "eigh (cov points) = (w, V)" by (cases "eigh (cov points)")
  from assms have "matmul (transpose3 V) V = eye3" by (simp add: eigh_contract_def e)
  then have "dot (column0 V) (column0 V) = 1" by (rule orth_columns)
  then show ?thesis unfolding normal_vector_cases[of eigh points, OF e] by (simp add: dot_vneg_vneg)
qed

lemma normal_vector_eigen:
  assumes "eigh_contract eigh (cov points)"
  shows "mat3_vec (cov points) (normal_vector eigh points) =
           vscale (x_of (fst (eigh (cov points)))) (normal_vector eigh points)"
proof -
  obtain w V where e: "eigh (cov points) = (w, V)" by (cases "eigh (cov points)")
  from assms have "mat3_vec (cov points) (column0 V) = vscale (x_of w) (column0 V)"
    by (simp add: eigh_contract_def e)
  then show ?thesis unfolding normal_vector_cases[of eigh points, OF e]
    by (simp add: e mat3_vec_vneg vscale_vneg)
qed

subsection \<open>The rotation of a unit normal\<close>

lemma unit_aligned:
  assumes "dot n n = 1" and "0 \<le> z_of n" and "norm3 (cross n target_vector) = 0"
  shows "n = target_vector"
proof -
  obtain a b c where n: "n = Vec3 a b c" by (cases n)
  from assms(3) have "a * a + b * b = 0" unfolding n s_zero_iff .
  then have ab: "a = 0" "b = 0" unfolding sq_sum_zero by simp_all
  from assms(1) have "c * c = 1" unfolding n using ab by simp
  then have "c = 1 \<or> c = - 1" by (simp add: power2_eq_square[symmetric] power2_eq_1_iff)
  with assms(2) have "c = 1" unfolding n by auto
  then show ?thesis using ab by (simp add: n target_vector_def)
qed

lemma rod_orth': 
  assumes u: "a * a + b * b + c * c = 1" and c1: "1 + c \<noteq> 0"
  shows "matmul (rod a b c) (transpose3 (rod a b c)) = eye3"
proof -
  obtain k where k: "k * (1 + c) = 1" using c1 by (metis nonzero_divide_eq_eq)
  have kd: "\<And>x. x / (1 + c) = x * k" using k c1 by (simp add: field_simps)
  show ?thesis unfolding rod_def eye3_def kd
    apply simp
    using k u by algebra
qed

lemma eye3_proper:
  "matmul (transpose3 eye3) eye3 = eye3" "matmul eye3 (transpose3 eye3) = eye3" "det3 eye3 = 1"
  by (simp_all add: eye3_def)

lemma R_unit_rotation:
  assumes u: "dot n n = 1" and z: "norm3 (cross n target_vector) = 0 \<longrightarrow> n = target_vector"
  shows "\<exists>r. R n = Inr r \<and> matmul (transpose3 r) r = eye3 \<and> matmul r (transpose3 r) = eye3
           \<and> det3 r = 1 \<and> mat3_vec r n = target_vector"
proof (cases "norm3 (cross n target_vector) = 0")
  case True
  then have "R n = Inr eye3" by (rule R_aligned)
  moreover have "mat3_vec eye3 n = target_vector" using z True by (simp add: mat3_vec_eye3)
  ultimately show ?thesis using eye3_proper by blast
next
  case False
  obtain a b c where n: "n = Vec3 a b c" by (cases n)
  have u': "a * a + b * b + c * c = 1" using u unfolding n by simp
  have s': "a * a + b * b \<noteq> 0" using False unfolding n s_zero_iff .
  have c1: "1 + c \<noteq> 0" using key(1)[of "a * a + b * b" c] u' s' by simp
  have "R n = Inr (rod a b c)" unfolding n by (rule R_unit_explicit[OF u' s'])
  moreover have "mat3_vec (rod a b c) n = target_vector"
    unfolding n target_vector_def by (rule rod_maps[OF u' c1])
  ultimately show ?thesis
    using rod_orth[OF u' c1] rod_orth'[OF u' c1] rod_det[OF u' c1] by blast
qed

lemma R_normal_vector_rotation:
  assumes "eigh_contract eigh (cov points)"
  shows "\<exists>r. R (normal_vector eigh points) = Inr r \<and> matmul (transpose3 r) r = eye3
           \<and> matmul r (transpose3 r) = eye3 \<and> det3 r = 1
           \<and> mat3_vec r (normal_vector eigh points) = target_vector"
  using R_unit_rotation normal_vector_unit[OF assms] unit_aligned normal_vector_upward
  by blast

lemma rotation_block_alignment: "rotation_block (mat4_mul (R_matrix r) (T points)) = r"
  by (cases r; cases "vneg (centroid points)") (simp add: T_def)

lemma vx_matrix_cross: "mat3_vec (vx_matrix v) x = cross v x"
  by (cases v; cases x) simp

lemma vx_matrix_skew: "transpose3 (vx_matrix v) = mat3_scale (vx_matrix v) (- 1)"
  by (cases v) simp

lemma cov_wall_points: "cov wall_points = Mat3 0 0 0  0 (1/3) 0  0 0 (1/3)"
  by (simp add: cov_def centered_points_def centroid_def np_cov_def np_mean_def wall_points_def Let_def)

lemma cov_square_points: "cov square_points = Mat3 (1/3) 0 0  0 (1/3) 0  0 0 0"
  by (simp add: cov_def centered_points_def centroid_def np_cov_def np_mean_def square_points_def Let_def)

lemma contract_wall_points: "eigh_contract example_eigh (cov wall_points)"
  unfolding cov_wall_points by (simp add: eigh_contract_def example_eigh_def eye3_def)

lemma contract_square_points: "eigh_contract example_eigh (cov square_points)"
  unfolding cov_square_points by (simp add: eigh_contract_def example_eigh_def eye3_def)

lemma normal_wall_points: "normal_vector example_eigh wall_points = Vec3 1 0 0"
  by (simp add: normal_vector_def cov_wall_points example_eigh_def)

lemma normal_square_points: "normal_vector example_eigh square_points = Vec3 0 0 1"
  by (simp add: normal_vector_def cov_square_points example_eigh_def)

text \<open>
  Claim C3. For a unit normal \<open>n\<close> whose cross product \<open>v\<close> with the target has a
  nonzero norm \<open>s\<close>, the script computes \<open>R = I + K + K\<^sup>2 * ((1 - c) / s\<^sup>2)\<close>, where
  \<open>K\<close> is the skew-symmetric matrix of the map \<open>x \<mapsto> v \<times> x\<close> and \<open>c = n \<sqdot> t\<close>, and this
  \<open>R\<close> maps \<open>n\<close> onto the target.
\<close>

theorem rodrigues_closed_form:
  assumes "dot n n = 1" and "norm3 (cross n target_vector) \<noteq> 0"
  shows "\<exists>r K. K = vx_matrix (cross n target_vector)
           \<and> transpose3 K = mat3_scale K (- 1)
           \<and> (\<forall>x. mat3_vec K x = cross (cross n target_vector) x)
           \<and> R n = Inr r
           \<and> r = mat3_add (mat3_add eye3 K)
                   (mat3_scale (matmul K K)
                      ((1 - dot n target_vector) / (norm3 (cross n target_vector))\<^sup>2))
           \<and> mat3_vec r n = target_vector"
proof -
  from R_unit_rotation[of n] assms obtain r where
    r: "R n = Inr r" "mat3_vec r n = target_vector" by blast
  from r(1) R_rodrigues[OF assms(2)] have "r = mat3_add (mat3_add eye3 (vx_matrix (cross n target_vector)))
                   (mat3_scale (matmul (vx_matrix (cross n target_vector)) (vx_matrix (cross n target_vector)))
                      ((1 - dot n target_vector) / (norm3 (cross n target_vector))\<^sup>2))"
    by simp
  with r show ?thesis using vx_matrix_cross vx_matrix_skew by blast
qed

theorem rodrigues_closed_form_witness:
  "dot (Vec3 1 0 0) (Vec3 1 0 0) = 1 \<and> norm3 (cross (Vec3 1 0 0) target_vector) \<noteq> 0
   \<and> R (Vec3 1 0 0) = Inr (Mat3 0 0 (- 1)  0 1 0  1 0 0)
   \<and> mat3_vec (Mat3 0 0 (- 1)  0 1 0  1 0 0) (Vec3 1 0 0) = target_vector"
proof -
  have h1: "dot (Vec3 1 0 0) (Vec3 1 0 0) = 1" by simp
  have h2: "norm3 (cross (Vec3 1 0 0) target_vector) \<noteq> 0"
    by (simp add: norm3_def target_vector_def)
  from rodrigues_closed_form [OF h1 h2] show ?thesis using h1 h2
    by (auto simp add: norm3_def target_vector_def eye3_def)
qed

text \<open>
  Claim C6. For three or more points and an eigensolver that keeps its contract on their
  covariance, the 3x3 block \<open>R\<close> of the computed transform satisfies \<open>R\<^sup>T R = I\<close> and
  \<open>det R = 1\<close>, and it maps the sign-canonicalised normal onto the target axis.
\<close>

theorem rotation_block_proper:
  assumes "3 \<le> length points" and "eigh_contract eigh (cov points)"
  shows "\<exists>A. alignment eigh points = Inr A
           \<and> matmul (transpose3 (rotation_block A)) (rotation_block A) = eye3
           \<and> det3 (rotation_block A) = 1
           \<and> mat3_vec (rotation_block A) (normal_vector eigh points) = target_vector"
proof -
  from R_normal_vector_rotation[OF assms(2)] obtain r where
    r: "R (normal_vector eigh points) = Inr r" "matmul (transpose3 r) r = eye3" "det3 r = 1"
       "mat3_vec r (normal_vector eigh points) = target_vector" by blast
  have "alignment eigh points = Inr (mat4_mul (R_matrix r) (T points))"
    using assms(1) r(1) by (simp add: alignment_def)
  with r show ?thesis by (metis rotation_block_alignment)
qed

theorem rotation_block_proper_witness:
  "3 \<le> length wall_points \<and> eigh_contract example_eigh (cov wall_points)
   \<and> (\<exists>A. alignment example_eigh wall_points = Inr A
           \<and> matmul (transpose3 (rotation_block A)) (rotation_block A) = eye3
           \<and> det3 (rotation_block A) = 1
           \<and> mat3_vec (rotation_block A) (Vec3 1 0 0) = target_vector)"
proof -
  have h1: "3 \<le> length wall_points" by (simp add: wall_points_def)
  from rotation_block_proper [OF h1 contract_wall_points] show ?thesis
    using h1 contract_wall_points unfolding normal_wall_points by simp
qed

text \<open>
  Claim C10. The rotation stage never divides by zero, for any normal: the division is
  reached only when \<open>s \<noteq> 0\<close>, and then \<open>s\<^sup>2 \<noteq> 0\<close>. The sign-canonicalised normal has
  a non-negative third component; so, when the eigensolver returns a unit vector, the
  branch \<open>s = 0\<close> is taken only when the normal equals the target \<open>(0, 0, 1)\<close>, where
  \<open>c = 1\<close>: the anti-parallel case \<open>c = -1\<close> does not arise.
\<close>

theorem division_safe_and_no_antiparallel:
  "(\<forall>n. R n \<noteq> Inl DivisionByZero)
   \<and> alignment eigh points \<noteq> Inl DivisionByZero
   \<and> fst (script eigh ch) \<noteq> Some DivisionByZero
   \<and> 0 \<le> z_of (normal_vector eigh points)
   \<and> (eigh_contract eigh (cov points)
        \<and> norm3 (cross (normal_vector eigh points) target_vector) = 0 \<longrightarrow>
          normal_vector eigh points = target_vector
          \<and> dot (normal_vector eigh points) target_vector = 1)"
proof -
  have a: "\<forall>n. R n \<noteq> Inl DivisionByZero" using R_defined by (metis Inl_Inr_False)
  have b: "alignment eigh points \<noteq> Inl DivisionByZero"
    using R_defined[of "normal_vector eigh points"] by (auto simp add: alignment_def)
  have s: "fst (script eigh ch) \<noteq> Some DivisionByZero"
    using a by (auto simp add: script_def Let_def split: list.splits sum.splits)
  have c: "eigh_contract eigh (cov points)
        \<and> norm3 (cross (normal_vector eigh points) target_vector) = 0 \<longrightarrow>
          normal_vector eigh points = target_vector
          \<and> dot (normal_vector eigh points) target_vector = 1"
  proof
    assume h: "eigh_contract eigh (cov points)
        \<and> norm3 (cross (normal_vector eigh points) target_vector) = 0"
    then have "normal_vector eigh points = target_vector"
      using unit_aligned normal_vector_unit normal_vector_upward by blast
    then show "normal_vector eigh points = target_vector
              \<and> dot (normal_vector eigh points) target_vector = 1"
      by (simp add: target_vector_def)
  qed
  from a b s c normal_vector_upward show ?thesis by blast
qed

theorem division_safe_and_no_antiparallel_witness:
  "eigh_contract example_eigh (cov square_points)
   \<and> column0 (snd (example_eigh (cov square_points))) = Vec3 0 0 (- 1)
   \<and> norm3 (cross (normal_vector example_eigh square_points) target_vector) = 0
   \<and> normal_vector example_eigh square_points = target_vector
   \<and> dot (normal_vector example_eigh square_points) target_vector = 1
   \<and> alignment example_eigh square_points \<noteq> Inl DivisionByZero
   \<and> fst (script example_eigh (example_chunk square_points)) \<noteq> Some DivisionByZero"
proof -
  have s: "norm3 (cross (normal_vector example_eigh square_points) target_vector) = 0"
    unfolding normal_square_points by (simp add: norm3_def target_vector_def)
  have e: "column0 (snd (example_eigh (cov square_points))) = Vec3 0 0 (- 1)"
    unfolding cov_square_points by (simp add: example_eigh_def)
  from division_safe_and_no_antiparallel
         [of example_eigh square_points "example_chunk square_points"]
  show ?thesis
    using s e contract_square_points by blast
qed

subsection \<open>Eigenvalues of a symmetric array\<close>

lemma np_cov_symmetric: "transpose3 (np_cov X) = np_cov X"
  by (simp add: np_cov_def Let_def mult.commute)

lemma cov_symmetric: "transpose3 (cov points) = cov points"
  by (simp add: cov_def np_cov_symmetric)

lemma eigen_dot:
  assumes sym: "transpose3 A = A"
    and v: "mat3_vec A v = vscale mu v" and x: "mat3_vec A x = vscale lam x"
  shows "(lam - mu) * dot v x = 0"
proof -
  have "lam * dot v x = dot v (mat3_vec A x)" unfolding x by (simp add: dot_vscale_right)
  also have "\<dots> = dot (mat3_vec A x) v" by (rule dot_commute)
  also have "\<dots> = dot x (mat3_vec A v)" unfolding dot_mat3_vec sym ..
  also have "\<dots> = mu * dot x v" unfolding v by (simp add: dot_vscale_right)
  also have "\<dots> = mu * dot v x" by (simp add: dot_commute)
  finally show ?thesis by (simp add: algebra_simps)
qed

lemma least_eigenvalue:
  assumes sym: "transpose3 A = A" and c: "eigh_contract eigh A"
    and x: "x \<noteq> Vec3 0 0 0" and e: "mat3_vec A x = vscale lam x"
  shows "x_of (fst (eigh A)) \<le> lam"
proof (rule ccontr)
  assume less: "\<not> x_of (fst (eigh A)) \<le> lam"
  obtain w V where wV: "eigh A = (w, V)" by (cases "eigh A")
  from c have ord: "x_of w \<le> y_of w" "y_of w \<le> z_of w"
    and o: "matmul (transpose3 V) V = eye3"
    and e0: "mat3_vec A (column0 V) = vscale (x_of w) (column0 V)"
    and e1: "mat3_vec A (column1 V) = vscale (y_of w) (column1 V)"
    and e2: "mat3_vec A (column2 V) = vscale (z_of w) (column2 V)"
    by (simp_all add: eigh_contract_def wV)
  from less have l: "lam < x_of w" by (simp add: wV)
  have "dot (column0 V) x = 0" using eigen_dot[OF sym e0 e] l by simp
  moreover have "dot (column1 V) x = 0" using eigen_dot[OF sym e1 e] l ord by simp
  moreover have "dot (column2 V) x = 0" using eigen_dot[OF sym e2 e] l ord by simp
  ultimately have "x = Vec3 0 0 0" by (rule orth_columns_span[OF o])
  with x show False by simp
qed

lemma dot_vsub_right: "dot u (vsub x y) = dot u x - dot u y"
  by (cases u; cases x; cases y) (simp add: algebra_simps)

lemma vsub_eq_zero: "vsub x y = Vec3 0 0 0 \<Longrightarrow> x = y"
  by (cases x; cases y) simp

lemma simple_eigenspace:
  assumes sym: "transpose3 A = A" and c: "eigh_contract eigh A" and nd: "nondegenerate eigh A"
    and e: "mat3_vec A x = vscale (x_of (fst (eigh A))) x"
  shows "x = vscale (dot (column0 (snd (eigh A))) x) (column0 (snd (eigh A)))"
proof -
  obtain w V where wV: "eigh A = (w, V)" by (cases "eigh A")
  from c have ord: "x_of w \<le> y_of w" "y_of w \<le> z_of w"
    and o: "matmul (transpose3 V) V = eye3"
    and e0: "mat3_vec A (column0 V) = vscale (x_of w) (column0 V)"
    and e1: "mat3_vec A (column1 V) = vscale (y_of w) (column1 V)"
    and e2: "mat3_vec A (column2 V) = vscale (z_of w) (column2 V)"
    by (simp_all add: eigh_contract_def wV)
  from nd have l: "x_of w < y_of w" by (simp add: nondegenerate_def wV)
  from e have e': "mat3_vec A x = vscale (x_of w) x" by (simp add: wV)
  note oc = orth_columns[OF o]
  have d1: "dot (column1 V) x = 0" using eigen_dot[OF sym e1 e'] l by simp
  have d2: "dot (column2 V) x = 0" using eigen_dot[OF sym e2 e'] l ord by simp
  define y where "y = vsub x (vscale (dot (column0 V) x) (column0 V))"
  have "dot (column0 V) y = 0" unfolding y_def dot_vsub_right dot_vscale_right using oc by simp
  moreover have "dot (column1 V) y = 0"
    unfolding y_def dot_vsub_right dot_vscale_right using oc d1
    by (simp add: dot_commute[of "column1 V" "column0 V"])
  moreover have "dot (column2 V) y = 0"
    unfolding y_def dot_vsub_right dot_vscale_right using oc d2
    by (simp add: dot_commute[of "column2 V" "column0 V"])
  ultimately have "y = Vec3 0 0 0" by (rule orth_columns_span[OF o])
  then have "x = vscale (dot (column0 V) x) (column0 V)" unfolding y_def by (rule vsub_eq_zero)
  then show ?thesis by (simp add: wV)
qed


text \<open>
  Claim C2. For three or more points and an eigensolver that keeps its contract on their
  covariance, which is a symmetric array, the fitted normal is a unit eigenvector of the
  covariance for the eigenvalue \<open>w[0]\<close>, no eigenvalue of the covariance is smaller than
  \<open>w[0]\<close>, the normal is column 0 of the eigenvectors, negated exactly when its third
  component (the one along the target axis) is negative, and the returned normal's
  component along the target axis is not negative.
\<close>

theorem normal_is_least_eigenvector:
  assumes "3 \<le> length points" and "eigh_contract eigh (cov points)"
  shows "transpose3 (cov points) = cov points
         \<and> dot (normal_vector eigh points) (normal_vector eigh points) = 1
         \<and> mat3_vec (cov points) (normal_vector eigh points) =
             vscale (x_of (fst (eigh (cov points)))) (normal_vector eigh points)
         \<and> (\<forall>lam x. x \<noteq> Vec3 0 0 0 \<and> mat3_vec (cov points) x = vscale lam x
               \<longrightarrow> x_of (fst (eigh (cov points))) \<le> lam)
         \<and> normal_vector eigh points =
             (if z_of (column0 (snd (eigh (cov points)))) < 0
              then vneg (column0 (snd (eigh (cov points))))
              else column0 (snd (eigh (cov points))))
         \<and> 0 \<le> dot (normal_vector eigh points) target_vector"
proof -
  obtain w V where wV: "eigh (cov points) = (w, V)" by (cases "eigh (cov points)")
  have "0 \<le> dot (normal_vector eigh points) target_vector"
    using normal_vector_upward[of eigh points]
    by (cases "normal_vector eigh points") (simp add: target_vector_def)
  moreover have "normal_vector eigh points =
             (if z_of (column0 (snd (eigh (cov points)))) < 0
              then vneg (column0 (snd (eigh (cov points))))
              else column0 (snd (eigh (cov points))))"
    using normal_vector_cases[of eigh points, OF wV] by (simp add: wV)
  ultimately show ?thesis
    using cov_symmetric normal_vector_unit[OF assms(2)] normal_vector_eigen[OF assms(2)]
      least_eigenvalue[OF cov_symmetric assms(2)]
    by blast
qed

theorem normal_is_least_eigenvector_witness:
  "3 \<le> length square_points \<and> eigh_contract example_eigh (cov square_points)
   \<and> column0 (snd (example_eigh (cov square_points))) = Vec3 0 0 (- 1)
   \<and> normal_vector example_eigh square_points = Vec3 0 0 1
   \<and> mat3_vec (cov square_points) (Vec3 0 0 1) = vscale 0 (Vec3 0 0 1)
   \<and> mat3_vec (cov square_points) (Vec3 1 0 0) = vscale (1/3) (Vec3 1 0 0)
   \<and> x_of (fst (example_eigh (cov square_points))) \<le> 1/3"
proof -
  have h1: "3 \<le> length square_points" by (simp add: square_points_def)
  have e: "example_eigh (cov square_points) = (Vec3 0 (1/3) (1/3), Mat3 0 1 0  0 0 1  (- 1) 0 0)"
    unfolding cov_square_points by (simp add: example_eigh_def)
  have x: "Vec3 1 0 0 \<noteq> Vec3 0 0 0
     \<and> mat3_vec (cov square_points) (Vec3 1 0 0) = vscale (1/3) (Vec3 1 0 0)"
    unfolding cov_square_points by simp
  from normal_is_least_eigenvector [OF h1 contract_square_points]
  have "mat3_vec (cov square_points) (normal_vector example_eigh square_points) =
             vscale (x_of (fst (example_eigh (cov square_points))))
               (normal_vector example_eigh square_points)
    \<and> (\<forall>lam x. x \<noteq> Vec3 0 0 0 \<and> mat3_vec (cov square_points) x = vscale lam x
               \<longrightarrow> x_of (fst (example_eigh (cov square_points))) \<le> lam)"
    by blast
  then have "mat3_vec (cov square_points) (Vec3 0 0 1) = vscale 0 (Vec3 0 0 1)
    \<and> x_of (fst (example_eigh (cov square_points))) \<le> 1/3"
    using x unfolding normal_square_points by (auto simp add: e)
  then show ?thesis
    using h1 contract_square_points normal_square_points e x by simp
qed

subsection \<open>Reordering the points\<close>







subsection \<open>The covariance of rotated points\<close>

lemma vsub_zero: "vsub p (Vec3 0 0 0) = p"
  by (cases p) simp

lemma sel_vadd:
  "x_of (vadd u v) = x_of u + x_of v" "y_of (vadd u v) = y_of u + y_of v"
  "z_of (vadd u v) = z_of u + z_of v"
  by (cases u; cases v; simp)+

lemma sel_vscale:
  "x_of (vscale k u) = k * x_of u" "y_of (vscale k u) = k * y_of u"
  "z_of (vscale k u) = k * z_of u"
  by (cases u; simp)+

lemma dot_sel: "dot u (Vec3 p q r) = x_of u * p + y_of u * q + z_of u * r"
  by (cases u) simp

lemma vec3_eqI: "x_of u = x_of v \<Longrightarrow> y_of u = y_of v \<Longrightarrow> z_of u = z_of v \<Longrightarrow> u = v"
  by (cases u; cases v) simp

lemma scatter_apply_x:
  "x_of (scatter_apply D (Vec3 p q r)) =
     sum_list (map (\<lambda>d. x_of d * x_of d) D) * p + sum_list (map (\<lambda>d. x_of d * y_of d) D) * q
       + sum_list (map (\<lambda>d. x_of d * z_of d) D) * r"
  by (induction D) (simp_all add: sel_vadd sel_vscale dot_sel algebra_simps)

lemma scatter_apply_y:
  "y_of (scatter_apply D (Vec3 p q r)) =
     sum_list (map (\<lambda>d. y_of d * x_of d) D) * p + sum_list (map (\<lambda>d. y_of d * y_of d) D) * q
       + sum_list (map (\<lambda>d. y_of d * z_of d) D) * r"
  by (induction D) (simp_all add: sel_vadd sel_vscale dot_sel algebra_simps)

lemma scatter_apply_z:
  "z_of (scatter_apply D (Vec3 p q r)) =
     sum_list (map (\<lambda>d. z_of d * x_of d) D) * p + sum_list (map (\<lambda>d. z_of d * y_of d) D) * q
       + sum_list (map (\<lambda>d. z_of d * z_of d) D) * r"
  by (induction D) (simp_all add: sel_vadd sel_vscale dot_sel algebra_simps)

lemma np_cov_apply:
  assumes "np_mean D = Vec3 0 0 0"
  shows "mat3_vec (np_cov D) y = vscale (1 / (real (length D) - 1)) (scatter_apply D y)"
proof -
  obtain p q r where y: "y = Vec3 p q r" by (cases y)
  show ?thesis unfolding y
    by (rule vec3_eqI)
      (simp_all add: np_cov_def Let_def assms vsub_zero sel_vscale o_def
         scatter_apply_x scatter_apply_y scatter_apply_z algebra_simps add_divide_distrib)
qed

lemma mat3_vec_vadd: "mat3_vec A (vadd u v) = vadd (mat3_vec A u) (mat3_vec A v)"
  by (cases A; cases u; cases v) (simp add: algebra_simps)

lemma mat3_vec_zero: "mat3_vec A (Vec3 0 0 0) = Vec3 0 0 0"
  by (cases A) simp

lemma scatter_apply_map:
  "scatter_apply (map (mat3_vec r) D) y = mat3_vec r (scatter_apply D (mat3_vec (transpose3 r) y))"
  by (induction D) (simp_all add: mat3_vec_zero mat3_vec_vadd mat3_vec_vscale dot_mat3_vec)

lemma np_mean_centered:
  assumes "points \<noteq> []"
  shows "np_mean (centered_points points) = Vec3 0 0 0"
  unfolding centered_points_def centroid_def np_mean_def[of "map _ _"]
  by (simp add: o_def sum_centered[OF assms])

lemma mat3_vec_eye3_image:  "map (mat3_vec eye3) D = D"
  by (simp add: mat3_vec_eye3 [abs_def])

lemma np_mean_rotated:
  assumes "points \<noteq> []"
  shows "np_mean (map (mat3_vec r) (centered_points points)) = Vec3 0 0 0"
  using np_mean_rot_centered[OF assms, of r]
  by (simp add: centered_points_def centroid_def o_def)

lemma cov_rotated:
  assumes ne: "points \<noteq> []" and q: "qs = map (mat3_vec r) (centered_points points)"
  shows "mat3_vec (cov qs) y =
           mat3_vec r (mat3_vec (cov points) (mat3_vec (transpose3 r) y))"
proof -
  have m: "np_mean qs = Vec3 0 0 0" unfolding q by (rule np_mean_rotated[OF ne])
  have c: "centered_points qs = qs"
    by (simp add: centered_points_def centroid_def m vsub_zero)
  have l: "length qs = length (centered_points points)" by (simp add: q)
  have "mat3_vec (cov qs) y = vscale (1 / (real (length qs) - 1)) (scatter_apply qs y)"
    unfolding cov_def c by (rule np_cov_apply[OF m])
  also have "\<dots> = mat3_vec r (vscale (1 / (real (length (centered_points points)) - 1))
        (scatter_apply (centered_points points) (mat3_vec (transpose3 r) y)))"
    unfolding l unfolding q scatter_apply_map mat3_vec_vscale ..
  also have "\<dots> = mat3_vec r (mat3_vec (cov points) (mat3_vec (transpose3 r) y))"
    unfolding cov_def np_cov_apply[OF np_mean_centered[OF ne]] ..
  finally show ?thesis .
qed

subsection \<open>Aligning points that are aligned already\<close>

lemma orth_inverse_left:
  assumes "matmul (transpose3 r) r = eye3"
  shows "mat3_vec (transpose3 r) (mat3_vec r x) = x"
  by (simp add: mat3_vec_matmul[symmetric] assms mat3_vec_eye3)

lemma orth_inverse_right:
  assumes "matmul r (transpose3 r) = eye3"
  shows "mat3_vec r (mat3_vec (transpose3 r) x) = x"
  by (simp add: mat3_vec_matmul[symmetric] assms mat3_vec_eye3)

lemma vscale_vscale: "vscale a (vscale b u) = vscale (a * b) u"
  by (cases u) simp

lemma unit_multiple_of_target:
  assumes "dot u u = 1" and "u = vscale k target_vector"
  shows "u = Vec3 0 0 1 \<or> u = Vec3 0 0 (- 1)"
proof -
  have u: "u = Vec3 0 0 k" using assms(2) by (simp add: target_vector_def)
  from assms(1) have "k * k = 1" unfolding u by simp
  then have "k = 1 \<or> k = - 1" by (simp add: power2_eq_square[symmetric] power2_eq_1_iff)
  then show ?thesis unfolding u by auto
qed

lemma realigned_column:
  assumes symC: "transpose3 C = C" and symC': "transpose3 C' = C'"
    and conj: "\<And>y. mat3_vec C' y = mat3_vec r (mat3_vec C (mat3_vec (transpose3 r) y))"
    and o1: "matmul (transpose3 r) r = eye3" and o2: "matmul r (transpose3 r) = eye3"
    and c: "eigh_contract eigh C" and c': "eigh_contract eigh C'" and nd: "nondegenerate eigh C"
    and rv: "mat3_vec r (column0 (snd (eigh C))) = vscale k target_vector" and k: "k \<noteq> 0"
  shows "column0 (snd (eigh C')) = Vec3 0 0 1 \<or> column0 (snd (eigh C')) = Vec3 0 0 (- 1)"
proof -
  obtain w V where wV: "eigh C = (w, V)" by (cases "eigh C")
  obtain w' V' where wV': "eigh C' = (w', V')" by (cases "eigh C'")
  from c have o: "matmul (transpose3 V) V = eye3"
    and e0: "mat3_vec C (column0 V) = vscale (x_of w) (column0 V)"
    by (simp_all add: eigh_contract_def wV)
  from c' have o': "matmul (transpose3 V') V' = eye3"
    and e0': "mat3_vec C' (column0 V') = vscale (x_of w') (column0 V')"
    by (simp_all add: eigh_contract_def wV')
  have rv': "mat3_vec r (column0 V) = vscale k target_vector" using rv by (simp add: wV)
  define x where "x = mat3_vec (transpose3 r) (column0 V')"
  have rx: "mat3_vec r x = column0 V'" unfolding x_def by (rule orth_inverse_right[OF o2])
  have u': "dot (column0 V') (column0 V') = 1" using orth_columns(1)[OF o'] .
  \<comment> \<open>the target is an eigenvector of the second covariance, for the first eigenvalue\<close>
  have "mat3_vec C' (vscale k target_vector) = vscale (x_of w) (vscale k target_vector)"
    unfolding conj rv'[symmetric] orth_inverse_left[OF o1] e0 mat3_vec_vscale ..
  moreover have "vscale k target_vector \<noteq> Vec3 0 0 0" using k by (simp add: target_vector_def)
  ultimately have le1: "x_of w' \<le> x_of w"
    using least_eigenvalue[OF symC' c', of "vscale k target_vector" "x_of w"] by (simp add: wV')
  \<comment> \<open>the second normal, turned back, is an eigenvector of the first covariance\<close>
  have "mat3_vec r (mat3_vec C x) = vscale (x_of w') (column0 V')"
    using e0' unfolding conj x_def .
  then have "mat3_vec (transpose3 r) (mat3_vec r (mat3_vec C x)) = vscale (x_of w') x"
    unfolding x_def by (simp add: mat3_vec_vscale)
  then have ex: "mat3_vec C x = vscale (x_of w') x" unfolding orth_inverse_left[OF o1] .
  have xnz: "x \<noteq> Vec3 0 0 0"
  proof
    assume "x = Vec3 0 0 0"
    then have "column0 V' = Vec3 0 0 0" using rx by (simp add: mat3_vec_zero)
    with u' show False by simp
  qed
  have le2: "x_of w \<le> x_of w'"
    using least_eigenvalue[OF symC c xnz ex] by (simp add: wV)
  from le1 le2 have "x_of w' = x_of w" by simp
  with ex have "mat3_vec C x = vscale (x_of (fst (eigh C))) x" by (simp add: wV)
  from simple_eigenspace[OF symC c nd this]
  have "x = vscale (dot (column0 V) x) (column0 V)" by (simp add: wV)
  then have "mat3_vec r x = vscale (dot (column0 V) x) (mat3_vec r (column0 V))"
    by (metis mat3_vec_vscale)
  then have "column0 V' = vscale (dot (column0 V) x * k) target_vector"
    unfolding rx rv' vscale_vscale .
  from unit_multiple_of_target[OF u' this] show ?thesis by (simp add: wV')
qed

lemma normal_vector_column:
  "normal_vector eigh points = column0 (snd (eigh (cov points)))
   \<or> normal_vector eigh points = vneg (column0 (snd (eigh (cov points))))"
proof -
  obtain w V where wV: "eigh (cov points) = (w, V)" by (cases "eigh (cov points)")
  show ?thesis unfolding normal_vector_cases[of eigh points, OF wV] by (simp add: wV)
qed

lemma vneg_vneg: "vneg (vneg u) = u"
  by (cases u) simp

lemma vneg_vscale: "vneg u = vscale (- 1) u"
  by (cases u) simp

lemma vscale_one: "vscale 1 u = u"
  by (cases u) simp

lemma R_matrix_eye3: "R_matrix eye3 = eye4"
  by (simp add: eye3_def eye4_def)

lemma mat4_mul_eye4: "mat4_mul eye4 eye4 = eye4"
  by (simp add: eye4_def)

text \<open>
  Claim C8. Take three or more points whose covariance has a simple smallest eigenvalue,
  and an eigensolver that keeps its contract on the covariance of the points and on that
  of the transformed points. Computing the transform, applying it to every point and
  computing the transform of the transformed points gives the identity.
\<close>

theorem realignment_is_identity:
  assumes len: "3 \<le> length points"
    and c: "eigh_contract eigh (cov points)" and nd: "nondegenerate eigh (cov points)"
    and a: "alignment eigh points = Inr A"
    and c': "eigh_contract eigh (cov (map (mulp A) points))"
  shows "alignment eigh (map (mulp A) points) = Inr eye4"
proof -
  have ne: "points \<noteq> []" using len by auto
  from R_normal_vector_rotation[OF c] obtain r where
    r: "R (normal_vector eigh points) = Inr r" and o1: "matmul (transpose3 r) r = eye3"
    and o2: "matmul r (transpose3 r) = eye3"
    and rn: "mat3_vec r (normal_vector eigh points) = target_vector" by blast
  have A: "A = mat4_mul (R_matrix r) (T points)" using a len r by (simp add: alignment_def)
  define qs where "qs = map (mulp A) points"
  have q: "qs = map (mat3_vec r) (centered_points points)"
    unfolding qs_def A by (simp add: centered_points_def mulp_alignment)
  have m: "np_mean qs = Vec3 0 0 0" unfolding q by (rule np_mean_rotated[OF ne])
  have lq: "\<not> length qs < 3" using len by (simp add: qs_def)
  have "\<exists>k. k \<noteq> 0 \<and> mat3_vec r (column0 (snd (eigh (cov points)))) = vscale k target_vector"
  proof -
    from normal_vector_column[of eigh points]
    have "column0 (snd (eigh (cov points))) = vscale 1 (normal_vector eigh points)
      \<or> column0 (snd (eigh (cov points))) = vscale (- 1) (normal_vector eigh points)"
      by (metis vneg_vneg vneg_vscale vscale_one)
    then have "mat3_vec r (column0 (snd (eigh (cov points)))) = vscale 1 target_vector
      \<or> mat3_vec r (column0 (snd (eigh (cov points)))) = vscale (- 1) target_vector"
      using rn by (metis mat3_vec_vscale)
    then show ?thesis by (metis one_neq_zero neg_equal_0_iff_equal)
  qed
  then obtain k where k: "k \<noteq> 0"
    and rv: "mat3_vec r (column0 (snd (eigh (cov points)))) = vscale k target_vector" by blast
  have "column0 (snd (eigh (cov qs))) = Vec3 0 0 1 \<or> column0 (snd (eigh (cov qs))) = Vec3 0 0 (- 1)"
    using realigned_column[OF cov_symmetric cov_symmetric cov_rotated[OF ne q] o1 o2 c _ nd rv k]
      c' unfolding qs_def by blast
  then have n: "normal_vector eigh qs = Vec3 0 0 1"
    using normal_vector_cases[of eigh qs "fst (eigh (cov qs))" "snd (eigh (cov qs))"] by auto
  have Rn: "R (normal_vector eigh qs) = Inr eye3"
    unfolding n by (rule R_aligned) (simp add: norm3_def target_vector_def)
  have Tq: "T qs = eye4" by (simp add: T_def centroid_def m eye4_def)
  have "alignment eigh qs = Inr eye4"
    using lq by (simp add: alignment_def Rn Tq R_matrix_eye3 mat4_mul_eye4)
  then show ?thesis unfolding qs_def .
qed

theorem realignment_is_identity_witness:
  "3 \<le> length wall_points \<and> eigh_contract example_eigh (cov wall_points)
   \<and> nondegenerate example_eigh (cov wall_points)
   \<and> alignment example_eigh wall_points =
         Inr (Mat4 0 0 (- 1) (1/2)  0 1 0 (- (1/2))  1 0 0 (- 3)  0 0 0 1)
   \<and> eigh_contract example_eigh
         (cov (map (mulp (Mat4 0 0 (- 1) (1/2)  0 1 0 (- (1/2))  1 0 0 (- 3)  0 0 0 1)) wall_points))
   \<and> alignment example_eigh
         (map (mulp (Mat4 0 0 (- 1) (1/2)  0 1 0 (- (1/2))  1 0 0 (- 3)  0 0 0 1)) wall_points)
       = Inr eye4"
proof -
  have h1: "3 \<le> length wall_points" by (simp add: wall_points_def)
  have h3: "nondegenerate example_eigh (cov wall_points)"
    unfolding cov_wall_points by (simp add: nondegenerate_def example_eigh_def)
  have r: "R (Vec3 1 0 0) = Inr (Mat3 0 0 (- 1)  0 1 0  1 0 0)"
    by (simp add: R_def Let_def norm3_def target_vector_def checked_divide_def eye3_def)
  have t: "T wall_points = Mat4 1 0 0 (- 3)  0 1 0 (- (1/2))  0 0 1 (- (1/2))  0 0 0 1"
    by (simp add: T_def centroid_def np_mean_def wall_points_def)
  have h4: "alignment example_eigh wall_points =
         Inr (Mat4 0 0 (- 1) (1/2)  0 1 0 (- (1/2))  1 0 0 (- 3)  0 0 0 1)"
    using h1 by (simp add: alignment_def normal_wall_points r t)
  have q: "map (mulp (Mat4 0 0 (- 1) (1/2)  0 1 0 (- (1/2))  1 0 0 (- 3)  0 0 0 1)) wall_points
     = [Vec3 (1/2) (- (1/2)) 0, Vec3 (1/2) (1/2) 0, Vec3 (- (1/2)) (- (1/2)) 0, Vec3 (- (1/2)) (1/2) 0]"
    by (simp add: wall_points_def)
  have cq: "cov [Vec3 (1/2) (- (1/2)) 0, Vec3 (1/2) (1/2) 0, Vec3 (- (1/2)) (- (1/2)) 0, Vec3 (- (1/2)) (1/2) 0]
     = Mat3 (1/3) 0 0  0 (1/3) 0  0 0 0"
    by (simp add: cov_def centered_points_def centroid_def np_cov_def np_mean_def Let_def)
  have h5: "eigh_contract example_eigh
         (cov (map (mulp (Mat4 0 0 (- 1) (1/2)  0 1 0 (- (1/2))  1 0 0 (- 3)  0 0 0 1)) wall_points))"
    unfolding q cq by (simp add: eigh_contract_def example_eigh_def eye3_def)
  from realignment_is_identity [OF h1 contract_wall_points h3 h4 h5] show ?thesis
    using h1 contract_wall_points h3 h4 h5 by blast
qed

subsection \<open>Example covariances\<close>







subsection \<open>The normal does not depend on the eigensolver\<close>














end
